theory Spec2Isabelle
  imports Complex_Main "HOL-Library.Word"
begin

section \<open>Lidar point-cloud extraction: the model of \<open>src/main.py\<close>\<close>

text \<open>
  The theory embeds the lidar path of \<open>main.py\<close>:
  \<open>rosbag_reader.raw_hesai_to_cartesian\<close> and \<open>rosbag_reader.export_pointclouds\<close>.
  Python exceptions are values of \<open>py_error\<close>, carried in the left summand of a sum type.
  In the reconstruction numpy's \<open>float64\<close> is idealised as \<open>real\<close>: \<open>np.sin\<close>, \<open>np.cos\<close>,
  \<open>np.pi\<close> and \<open>np.deg2rad\<close> are the real functions, and rounding is not part of the
  model, so nothing is stated here about rounding errors or tolerances.
\<close>

subsection \<open>Exceptions\<close>

datatype py_error =
    IndexError
  | ValueError
  | TypeError
  | AttributeError
  | UnicodeDecodeError
  | EOFError

subsection \<open>The decoded packet\<close>

text \<open>
  \<open>HesaiPandar64Packets\<close> comes from the module \<open>hesai_pandar_64_packets\<close>. The records
  below hold the fields that \<open>main.py\<close> reads from the decoded object:
  \<open>blocks\<close>, \<open>tail.return_mode\<close>, \<open>block.azimuth_deg\<close>, \<open>block.channel\<close>,
  \<open>channel.distance_value\<close> and \<open>channel.reflectance_value\<close>. The decoder
  \<open>HesaiPandar64Packets.from_bytes\<close> is a parameter \<open>from_bytes\<close> of the functions that
  call it; it either raises or returns a decoded packet.
\<close>

record channel_t =
  distance_value :: int
  reflectance_value :: int

record block_t =
  azimuth_deg :: real
  channel :: "channel_t list"

record tail_t =
  return_mode :: int

record hesai_packet =
  blocks :: "block_t list"
  tail :: tail_t

type_synonym bytes = "8 word list"

type_synonym decoder = "bytes \<Rightarrow> py_error + hesai_packet"

subsection \<open>numpy arrays\<close>

text \<open>
  An array of dimension 0, 1 or 2. \<open>genfromtxt\<close> squeezes its result, so that a table of
  one row or of one column is one-dimensional.
\<close>

datatype 'a ndarray = Arr0 'a | Arr1 "'a list" | Arr2 "'a list list"

text \<open>\<open>a[:, j]\<close>: too many indices for an array of dimension below 2, and \<open>j\<close> must be a
  column of every row.\<close>

definition column :: "'a ndarray \<Rightarrow> nat \<Rightarrow> py_error + 'a list" where
  "column a j =
     (case a of
        Arr0 _ \<Rightarrow> Inl IndexError
      | Arr1 _ \<Rightarrow> Inl IndexError
      | Arr2 rows \<Rightarrow>
          if list_all (\<lambda>r. j < length r) rows then Inr (map (\<lambda>r. r ! j) rows)
          else Inl IndexError)"

text \<open>
  \<open>a[mask]\<close> with a boolean mask. numpy compares the size of the mask with the size of
  the array only when the mask is not empty: an empty mask selects nothing from an
  array of any length, and a non-empty mask of another length raises \<open>IndexError\<close>.
\<close>

definition mask_index :: "'a list \<Rightarrow> bool list \<Rightarrow> py_error + 'a list" where
  "mask_index a bmask =
     (if bmask \<noteq> [] \<and> length a \<noteq> length bmask then Inl IndexError
      else Inr (map fst (filter snd (zip a bmask))))"

definition deg2rad :: "real \<Rightarrow> real" where
  "deg2rad d = d * (pi / 180)"




subsection \<open>Slicing\<close>

text \<open>
  \<open>xs[start::step]\<close> for \<open>start \<ge> 0\<close> and \<open>step > 0\<close>, as CPython computes it: the start
  is clipped to the length, the stop is the length, and the slice has
  \<open>(stop - start - 1) // step + 1\<close> elements when \<open>start < stop\<close>.
\<close>

definition py_slice :: "'a list \<Rightarrow> nat \<Rightarrow> nat \<Rightarrow> 'a list" where
  "py_slice xs start step =
     (let stop = length xs;
          start' = min start stop;
          n = (if start' < stop then (stop - start' - 1) div step + 1 else 0)
      in map (\<lambda>i. xs ! (start' + i * step)) [0..<n])"

subsection \<open>\<open>raw_hesai_to_cartesian\<close>\<close>

text \<open>
  The state of the reader that the lidar path touches: the attribute
  \<open>self.calibration_array\<close> (absent until \<open>export_pointclouds\<close> assigns it) and the
  warnings issued so far through the \<open>warnings\<close> module.
\<close>

record reader =
  calibration_array :: "real ndarray option"
  warnings_log :: "string list"

text \<open>The block iteration parameters chosen from the return mode (57 is dual return).\<close>

definition block_iter :: "hesai_packet \<Rightarrow> nat \<times> nat" where
  "block_iter hesai_udp_dto =
     (if return_mode (tail hesai_udp_dto) = 57 then (1, 2) else (0, 1))"

definition selected_blocks :: "hesai_packet \<Rightarrow> block_t list" where
  "selected_blocks hesai_udp_dto =
     (case block_iter hesai_udp_dto of
        (block_iter_start, block_iter_step) \<Rightarrow>
          py_slice (blocks hesai_udp_dto) block_iter_start block_iter_step)"

type_synonym cloud_part = "(real \<times> real \<times> real) list \<times> int list"

text \<open>
  The body of the \<open>for\<close> loop for one block. The three coordinate arrays are products of
  masked arrays of equal length; the result pairs the rows of
  \<open>np.vstack((x_array, y_array, z_array)).T\<close> with the masked reflectance column.
\<close>

definition block_body :: "real list \<Rightarrow> real list \<Rightarrow> block_t \<Rightarrow> py_error + cloud_part" where
  "block_body elevation_array azimuth_offset_array block =
     (let azimuth_rad = deg2rad (azimuth_deg block);
          azimuth_array = map (\<lambda>a. a + azimuth_rad) azimuth_offset_array;
          distance_array = map (\<lambda>c. real_of_int (distance_value c) / 1000) (channel block);
          reflectance_array = map reflectance_value (channel block);
          valid_value_mask = map (\<lambda>d. d \<noteq> 0) distance_array
      in case mask_index distance_array valid_value_mask of
           Inl e \<Rightarrow> Inl e
         | Inr dv \<Rightarrow>
        (case mask_index elevation_array valid_value_mask of
           Inl e \<Rightarrow> Inl e
         | Inr ev \<Rightarrow>
        (case mask_index azimuth_array valid_value_mask of
           Inl e \<Rightarrow> Inl e
         | Inr av \<Rightarrow>
        (case mask_index reflectance_array valid_value_mask of
           Inl e \<Rightarrow> Inl e
         | Inr rv \<Rightarrow>
            (let x_array = map (\<lambda>(d, el, az). d * sin el * cos az) (zip dv (zip ev av));
                 y_array = map (\<lambda>(d, el, az). d * sin el * sin az) (zip dv (zip ev av));
                 z_array = map (\<lambda>(d, el). d * cos el) (zip dv ev)
             in Inr (zip x_array (zip y_array z_array), rv))))))"

text \<open>
  The \<open>for\<close> loop over the selected blocks. Its body ends in \<open>return\<close>, so the first
  iteration leaves the function and the remaining blocks are not visited; with no
  block to visit the function falls off its end and returns \<open>None\<close>.
\<close>

fun block_loop :: "real list \<Rightarrow> real list \<Rightarrow> block_t list \<Rightarrow> py_error + cloud_part option" where
  "block_loop elevation_array azimuth_offset_array [] = Inr None"
| "block_loop elevation_array azimuth_offset_array (block # rest) =
     (case block_body elevation_array azimuth_offset_array block of
        Inl e \<Rightarrow> Inl e
      | Inr r \<Rightarrow> Inr (Some r))"

definition raw_hesai_to_cartesian ::
  "decoder \<Rightarrow> reader \<Rightarrow> bytes \<Rightarrow> py_error + cloud_part option" where
  "raw_hesai_to_cartesian from_bytes self packet_data =
     (case from_bytes packet_data of
        Inl e \<Rightarrow> Inl e
      | Inr hesai_udp_dto \<Rightarrow>
     (case calibration_array self of
        None \<Rightarrow> Inl AttributeError
      | Some cal \<Rightarrow>
     (case column cal 1 of
        Inl e \<Rightarrow> Inl e
      | Inr elevation_deg \<Rightarrow>
     (case column cal 2 of
        Inl e \<Rightarrow> Inl e
      | Inr azimuth_offset_deg \<Rightarrow>
          block_loop
            (map (\<lambda>e. (pi / 2) - deg2rad e) elevation_deg)
            (map deg2rad azimuth_offset_deg)
            (selected_blocks hesai_udp_dto)))))"

text \<open>
  The point that the loop body computes for one channel, from the channel's reading,
  its entry of \<open>elevation_array\<close>, its entry of \<open>azimuth_offset_array\<close> and the azimuth
  of the block in radians. It is used to state what \<open>block_body\<close> returns.
\<close>

definition channel_point :: "real \<Rightarrow> channel_t \<times> real \<times> real \<Rightarrow> real \<times> real \<times> real" where
  "channel_point azimuth_rad t =
     (case t of (c, el, off) \<Rightarrow>
        (real_of_int (distance_value c) / 1000 * sin el * cos (off + azimuth_rad),
         real_of_int (distance_value c) / 1000 * sin el * sin (off + azimuth_rad),
         real_of_int (distance_value c) / 1000 * cos el))"

subsection \<open>Decoding the calibration payload\<close>

text \<open>
  \<open>bytes.decode('utf-8')\<close> of CPython, with the default strict error handling: the result
  is the sequence of code points, and a byte sequence that is not well-formed UTF-8
  (a stray continuation byte, an overlong form, a surrogate, a code point above
  \<open>0x10FFFF\<close>, a truncated sequence) raises \<open>UnicodeDecodeError\<close>, here \<open>None\<close>.
\<close>

type_synonym py_str = "nat list"

definition cont :: "8 word \<Rightarrow> bool" where
  "cont b = (0x80 \<le> b \<and> b \<le> 0xBF)"

fun utf8_decode :: "bytes \<Rightarrow> py_str option" where
  "utf8_decode [] = Some []"
| "utf8_decode (b0 # bs) =
     (if b0 < 0x80 then map_option ((#) (unat b0)) (utf8_decode bs)
      else if 0xC2 \<le> b0 \<and> b0 \<le> 0xDF then
        (case bs of
           b1 # r \<Rightarrow>
             if cont b1
             then map_option ((#) ((unat b0 - 0xC0) * 64 + (unat b1 - 0x80))) (utf8_decode r)
             else None
         | _ \<Rightarrow> None)
      else if 0xE0 \<le> b0 \<and> b0 \<le> 0xEF then
        (case bs of
           b1 # b2 # r \<Rightarrow>
             if cont b1 \<and> cont b2 \<and> (b0 = 0xE0 \<longrightarrow> 0xA0 \<le> b1) \<and> (b0 = 0xED \<longrightarrow> b1 \<le> 0x9F)
             then map_option
                    ((#) ((unat b0 - 0xE0) * 4096 + (unat b1 - 0x80) * 64 + (unat b2 - 0x80)))
                    (utf8_decode r)
             else None
         | _ \<Rightarrow> None)
      else if 0xF0 \<le> b0 \<and> b0 \<le> 0xF4 then
        (case bs of
           b1 # b2 # b3 # r \<Rightarrow>
             if cont b1 \<and> cont b2 \<and> cont b3
                \<and> (b0 = 0xF0 \<longrightarrow> 0x90 \<le> b1) \<and> (b0 = 0xF4 \<longrightarrow> b1 \<le> 0x8F)
             then map_option
                    ((#) ((unat b0 - 0xF0) * 262144 + (unat b1 - 0x80) * 4096
                          + (unat b2 - 0x80) * 64 + (unat b3 - 0x80)))
                    (utf8_decode r)
             else None
         | _ \<Rightarrow> None)
      else None)"

subsection \<open>\<open>np.genfromtxt(StringIO(text), delimiter=",", skip_header=1)\<close>\<close>

text \<open>
  Iterating over a \<open>StringIO\<close> yields the lines of the text, each with its terminating
  newline (code point 10) when it has one.
\<close>

fun lines_from :: "py_str \<Rightarrow> py_str \<Rightarrow> py_str list" where
  "lines_from cur [] = (if cur = [] then [] else [cur])"
| "lines_from cur (c # cs) =
     (if c = 10 then (cur @ [c]) # lines_from [] cs else lines_from (cur @ [c]) cs)"

definition py_lines :: "py_str \<Rightarrow> py_str list" where
  "py_lines text = lines_from [] text"

text \<open>\<open>s.split(sep)\<close> for a separator of one character: at least one piece.\<close>

fun py_split :: "nat \<Rightarrow> py_str \<Rightarrow> py_str list" where
  "py_split sep [] = [[]]"
| "py_split sep (c # cs) =
     (if c = sep then [] # py_split sep cs
      else (case py_split sep cs of
              [] \<Rightarrow> [[c]]
            | piece # pieces \<Rightarrow> (c # piece) # pieces))"

text \<open>\<open>s.strip(chars)\<close>.\<close>

definition py_strip :: "nat list \<Rightarrow> py_str \<Rightarrow> py_str" where
  "py_strip chars s =
     rev (dropWhile (\<lambda>c. c \<in> set chars) (rev (dropWhile (\<lambda>c. c \<in> set chars) s)))"

text \<open>
  numpy's \<open>LineSplitter\<close> for a delimiter string: drop the comment (from the first
  \<open>#\<close>, code point 35), strip blanks, carriage returns and newlines, and split a
  non-empty rest at the delimiter \<open>,\<close> (code point 44).
\<close>

definition split_line :: "py_str \<Rightarrow> py_str list" where
  "split_line line =
     (let line1 = (case py_split 35 line of [] \<Rightarrow> [] | before # _ \<Rightarrow> before);
          line2 = py_strip [32, 13, 10] line1
      in if line2 = [] then [] else py_split 44 line2)"

text \<open>\<open>np.squeeze\<close> of a table given by its rows.\<close>

definition squeeze :: "'a list list \<Rightarrow> 'a ndarray" where
  "squeeze rows =
     (case rows of
        [] \<Rightarrow> Arr1 []
      | [r] \<Rightarrow> (case r of [v] \<Rightarrow> Arr0 v | _ \<Rightarrow> Arr1 r)
      | _ \<Rightarrow> if list_all (\<lambda>r. length r = 1) rows then Arr1 (concat rows) else Arr2 rows)"

text \<open>
  \<open>genfromtxt\<close> skips the header line, then skips lines without values. The first line
  with values fixes the number of columns; every later line with another number of
  values is recorded as invalid, and one invalid line raises \<open>ValueError\<close>. Each value is
  converted by \<open>conv\<close>, the float converter of numpy's \<open>StringConverter\<close>, which is a
  parameter here. A text without a data row gives an empty array and the warning
  that the input is empty. The result is the array and the warnings issued.
\<close>

definition data_rows :: "py_str \<Rightarrow> py_str list list" where
  "data_rows text = filter (\<lambda>values. values \<noteq> []) (map split_line (drop 1 (py_lines text)))"

definition genfromtxt :: "(py_str \<Rightarrow> 'a) \<Rightarrow> py_str \<Rightarrow> py_error + ('a ndarray \<times> string list)" where
  "genfromtxt conv text =
     (case data_rows text of
        [] \<Rightarrow> Inr (Arr1 [], [''genfromtxt: Empty input file''])
      | first_values # later \<Rightarrow>
          (let nbcols = length first_values;
               invalid = filter (\<lambda>values. length values \<noteq> nbcols) (first_values # later)
           in if invalid \<noteq> [] then Inl ValueError
              else Inr (squeeze (map (map conv) (first_values # later)), [])))"

text \<open>
  A table is ragged when some row has another number of values than the first row.
  The predicate is used to state when \<open>genfromtxt\<close> raises.
\<close>

definition ragged :: "'a list list \<Rightarrow> bool" where
  "ragged rows =
     (case rows of
        [] \<Rightarrow> False
      | first_values # _ \<Rightarrow> list_ex (\<lambda>values. length values \<noteq> length first_values) rows)"

subsection \<open>\<open>export_pointclouds\<close>\<close>

text \<open>A packet of a scan message: its time stamp and its payload.\<close>

record packet =
  stamp_secs :: int
  stamp_nsecs :: int
  data :: bytes

text \<open>
  What is written for one scan message: the points, their colours
  (\<open>np.repeat(reflectance_array, 3, axis=1) / 255\<close>) and the two numbers of the file name
  \<open>"%s.%s.ply"\<close>.
\<close>

record cloud_file =
  points :: "(real \<times> real \<times> real) list"
  colors :: "(real \<times> real \<times> real) list"
  file_stamp :: "int \<times> int"

text \<open>
  Lines 99 and 100: the calibration table is parsed from the last packet of the
  message, after its first 8 bytes, and assigned to \<open>self.calibration_array\<close>. The
  type of the entries is that of the converter's results: \<open>float64\<close> where
  not-a-number matters, and \<open>real\<close> in the reader, whose table feeds the
  reconstruction.
\<close>

definition load_calibration ::
  "(py_str \<Rightarrow> 'a) \<Rightarrow> packet list \<Rightarrow> py_error + ('a ndarray \<times> string list)" where
  "load_calibration conv packets =
     (if packets = [] then Inl IndexError
      else case utf8_decode (drop 8 (data (last packets))) of
             None \<Rightarrow> Inl UnicodeDecodeError
           | Some calibration_array_raw \<Rightarrow> genfromtxt conv calibration_array_raw)"

definition assign_calibration ::
  "(py_str \<Rightarrow> real) \<Rightarrow> reader \<Rightarrow> packet list \<Rightarrow> py_error + reader" where
  "assign_calibration conv self packets =
     (case load_calibration conv packets of
        Inl e \<Rightarrow> Inl e
      | Inr (cal, warned) \<Rightarrow>
          Inr (self\<lparr>calibration_array := Some cal,
                    warnings_log := warnings_log self @ warned\<rparr>))"

text \<open>
  The loop over \<open>msg.packets[:-1]\<close>. Unpacking the result of
  \<open>raw_hesai_to_cartesian\<close> into two names raises \<open>TypeError\<close> when the result is \<open>None\<close>.
  No exception is caught.
\<close>

fun packet_loop ::
  "decoder \<Rightarrow> reader \<Rightarrow> packet list \<Rightarrow> cloud_part \<Rightarrow> py_error + cloud_part" where
  "packet_loop from_bytes self [] acc = Inr acc"
| "packet_loop from_bytes self (pkt # pkts) (point_array, reflectance_array) =
     (case raw_hesai_to_cartesian from_bytes self (data pkt) of
        Inl e \<Rightarrow> Inl e
      | Inr None \<Rightarrow> Inl TypeError
      | Inr (Some (tmp_point_array, tmp_reflectance_array)) \<Rightarrow>
          packet_loop from_bytes self pkts
            (point_array @ tmp_point_array, reflectance_array @ tmp_reflectance_array))"

text \<open>The body of the loop over the messages, for one message given by its packets.\<close>

definition export_message ::
  "decoder \<Rightarrow> (py_str \<Rightarrow> real) \<Rightarrow> reader \<Rightarrow> packet list \<Rightarrow> py_error + (reader \<times> cloud_file)" where
  "export_message from_bytes conv self packets =
     (case assign_calibration conv self packets of
        Inl e \<Rightarrow> Inl e
      | Inr self' \<Rightarrow>
          (case packet_loop from_bytes self' (butlast packets) ([], []) of
             Inl e \<Rightarrow> Inl e
           | Inr (point_array, reflectance_array) \<Rightarrow>
               Inr (self',
                    \<lparr>points = point_array,
                     colors = map (\<lambda>r. (real_of_int r / 255, real_of_int r / 255,
                                         real_of_int r / 255)) reflectance_array,
                     file_stamp = (stamp_secs (hd packets), stamp_nsecs (hd packets))\<rparr>)))"

text \<open>
  The loop over the messages: the files written so far, and the reader at the end or
  the exception that ended the loop.
\<close>

fun export_pointclouds ::
  "decoder \<Rightarrow> (py_str \<Rightarrow> real) \<Rightarrow> reader \<Rightarrow> packet list list \<Rightarrow> cloud_file list
     \<Rightarrow> cloud_file list \<times> (py_error + reader)" where
  "export_pointclouds from_bytes conv self [] written = (written, Inr self)"
| "export_pointclouds from_bytes conv self (msg # msgs) written =
     (case export_message from_bytes conv self msg of
        Inl e \<Rightarrow> (written, Inl e)
      | Inr (self', file) \<Rightarrow> export_pointclouds from_bytes conv self' msgs (written @ [file]))"

subsection \<open>Sample inputs\<close>

text \<open>
  Inputs for the concrete evaluations below. \<open>dec_value\<close> is the value that \<open>float\<close> gives
  to a string of decimal digits. \<open>sample_from_bytes\<close> stands in for the packet decoder
  in these evaluations: an empty payload is truncated, and otherwise the first byte is
  the return mode and each further byte is one block, with that azimuth in degrees and
  two channels, the first at 1000 mm with reflectance 200 and the second without return
  (0 mm, reflectance 100). \<open>sample_calibration\<close> is a calibration packet for two channels,
  with elevations 0 and 10 degrees and azimuth offsets 0; \<open>short_calibration\<close> is one
  whose rows have two fields, and \<open>nan_calibration\<close> is one whose first row has an empty
  elevation field. \<open>sample_float\<close> is the converter of \<open>genfromtxt\<close> on the strings of
  these samples: a missing (empty) value is not-a-number, and a string of decimal
  digits has its value.
\<close>

definition dec_value :: "py_str \<Rightarrow> real" where
  "dec_value s = real (foldl (\<lambda>v c. 10 * v + (c - 48)) 0 s)"

definition sample_from_bytes :: decoder where
  "sample_from_bytes packet_data =
     (case packet_data of
        [] \<Rightarrow> Inl EOFError
      | mode # azimuths \<Rightarrow>
          Inr \<lparr>blocks =
                 map (\<lambda>a. \<lparr>azimuth_deg = real (unat a),
                            channel = [\<lparr>distance_value = 1000, reflectance_value = 200\<rparr>,
                                       \<lparr>distance_value = 0, reflectance_value = 100\<rparr>]\<rparr>)
                     azimuths,
               tail = \<lparr>return_mode = uint mode\<rparr>\<rparr>)"

definition ascii :: "string \<Rightarrow> bytes" where
  "ascii s = map of_char s"

definition sample_calibration :: packet where
  "sample_calibration =
     \<lparr>stamp_secs = 7, stamp_nsecs = 9,
      data = replicate 8 0 @ ascii ''Laser id,Elevation,Azimuth'' @ [10]
             @ ascii ''1,0,0'' @ [10] @ ascii ''2,10,0'' @ [10]\<rparr>"

definition short_calibration :: packet where
  "short_calibration =
     \<lparr>stamp_secs = 7, stamp_nsecs = 9,
      data = replicate 8 0 @ ascii ''Elevation,Azimuth'' @ [10]
             @ ascii ''0,0'' @ [10] @ ascii ''10,0'' @ [10]\<rparr>"



definition sample_packet :: "bytes \<Rightarrow> packet" where
  "sample_packet bs = \<lparr>stamp_secs = 5, stamp_nsecs = 6, data = bs\<rparr>"

definition fresh_reader :: reader where
  "fresh_reader = \<lparr>calibration_array = None, warnings_log = []\<rparr>"

section \<open>Properties\<close>

subsection \<open>Slicing\<close>

lemma odd_upt: "filter odd [0..<n] = map (\<lambda>i. 1 + i * 2) [0..<n div 2]"
proof (induction n)
  case 0
  show ?case by simp
next
  case (Suc n)
  show ?case
  proof (cases "odd n")
    case True
    then have "n = Suc (n div 2 * 2)" by presburger
    moreover from True have "Suc n div 2 = Suc (n div 2)" by presburger
    ultimately show ?thesis using Suc True by simp
  next
    case False
    then have "Suc n div 2 = n div 2" by presburger
    then show ?thesis using Suc False by simp
  qed
qed

lemma py_slice_all: "py_slice xs 0 1 = xs"
  by (simp add: py_slice_def map_nth)

lemma py_slice_odd: "py_slice xs 1 2 = map (\<lambda>i. xs ! i) (filter odd [0..<length xs])"
proof (cases "length xs = 0")
  case True
  then show ?thesis by (simp add: py_slice_def)
next
  case False
  then have m: "min 1 (length xs) = 1" by (cases xs) simp_all
  have n: "(if 1 < length xs then (length xs - 1 - 1) div 2 + 1 else 0) = length xs div 2"
    by presburger
  show ?thesis
    unfolding odd_upt py_slice_def Let_def m n by (simp add: comp_def)
qed

subsection \<open>The loop body\<close>

lemma masked_triple:
  assumes "length cs = length el" "length el = length ao"
  shows "zip (map (\<lambda>(d, el, az). F d el az)
            (zip (map fst (filter snd (zip (map f cs) (map Q (map f cs)))))
              (zip (map fst (filter snd (zip el (map Q (map f cs)))))
                   (map fst (filter snd (zip (map g ao) (map Q (map f cs))))))))
          (zip (map (\<lambda>(d, el, az). G d el az)
            (zip (map fst (filter snd (zip (map f cs) (map Q (map f cs)))))
              (zip (map fst (filter snd (zip el (map Q (map f cs)))))
                   (map fst (filter snd (zip (map g ao) (map Q (map f cs))))))))
            (map (\<lambda>(d, el). H d el)
            (zip (map fst (filter snd (zip (map f cs) (map Q (map f cs)))))
              (map fst (filter snd (zip el (map Q (map f cs))))))))
       = map (\<lambda>(c, e, a). (F (f c) e (g a), G (f c) e (g a), H (f c) e))
           (filter (\<lambda>(c, e, a). Q (f c)) (zip cs (zip el ao)))"
  using assms
  by (induction cs el ao rule: list_induct3) simp_all

lemma masked_single:
  "map fst (filter snd (zip (map h cs) (map Q (map f cs)))) = map h (filter (\<lambda>c. Q (f c)) cs)"
  by (induction cs) simp_all

text \<open>
  What the loop body returns: for a block without channels the empty arrays; for
  another block \<open>IndexError\<close> unless both calibration columns have one entry per
  channel of the block, and otherwise the points of the channels with a non-zero
  distance, in channel order, with their reflectances.
\<close>

lemma block_body_empty:
  "channel b = [] \<Longrightarrow> block_body el ao b = Inr ([], [])"
  by (simp add: block_body_def mask_index_def)

lemma block_body_eq:
  "block_body el ao b =
     (if channel b = [] \<or> (length el = length (channel b) \<and> length ao = length (channel b))
      then Inr (map (channel_point (deg2rad (azimuth_deg b)))
                  (filter (\<lambda>(c, el, off). distance_value c \<noteq> 0) (zip (channel b) (zip el ao))),
                map reflectance_value (filter (\<lambda>c. distance_value c \<noteq> 0) (channel b)))
      else Inl IndexError)"
proof (cases "channel b = []")
  case True
  then show ?thesis by (simp add: block_body_empty)
next
  case ne: False
  show ?thesis
  proof (cases "length el = length (channel b) \<and> length ao = length (channel b)")
    case True
    then have l: "length (channel b) = length el" "length el = length ao" by simp_all
    from True have le: "length el = length (channel b)" and la: "length ao = length (channel b)"
      by simp_all
    let ?f = "\<lambda>c. real_of_int (distance_value c) / 1000"
    let ?m = "map (\<lambda>d. d \<noteq> 0) (map ?f (channel b))"
    have d: "mask_index (map ?f (channel b)) ?m
               = Inr (map fst (filter snd (zip (map ?f (channel b)) ?m)))"
      and e: "mask_index el ?m = Inr (map fst (filter snd (zip el ?m)))"
      and a: "mask_index (map (\<lambda>a. a + deg2rad (azimuth_deg b)) ao) ?m
               = Inr (map fst (filter snd (zip (map (\<lambda>a. a + deg2rad (azimuth_deg b)) ao) ?m)))"
      by (simp_all add: mask_index_def le la)
    have r: "mask_index (map reflectance_value (channel b)) ?m
               = Inr (map reflectance_value (filter (\<lambda>c. ?f c \<noteq> 0) (channel b)))"
      unfolding mask_index_def masked_single by simp
    have "block_body el ao b =
        Inr (map (\<lambda>(c, e, a).
                   (real_of_int (distance_value c) / 1000 * sin e * cos (a + deg2rad (azimuth_deg b)),
                    real_of_int (distance_value c) / 1000 * sin e * sin (a + deg2rad (azimuth_deg b)),
                    real_of_int (distance_value c) / 1000 * cos e))
               (filter (\<lambda>(c, e, a). real_of_int (distance_value c) / 1000 \<noteq> 0)
                  (zip (channel b) (zip el ao))),
             map reflectance_value
               (filter (\<lambda>c. real_of_int (distance_value c) / 1000 \<noteq> 0) (channel b)))"
      unfolding block_body_def Let_def d e a r sum.case masked_triple [OF l] ..
    also have "\<dots> = Inr (map (channel_point (deg2rad (azimuth_deg b)))
                    (filter (\<lambda>(c, el, off). distance_value c \<noteq> 0) (zip (channel b) (zip el ao))),
                  map reflectance_value (filter (\<lambda>c. distance_value c \<noteq> 0) (channel b)))"
      by (simp add: channel_point_def)
    finally show ?thesis using True by simp
  next
    case False
    then show ?thesis
      using ne by (auto simp add: block_body_def mask_index_def Let_def)
  qed
qed

lemma block_body_Inr:
  assumes "block_body el ao b = Inr (pts, rf)"
  shows "channel b = [] \<or> (length el = length (channel b) \<and> length ao = length (channel b))"
    "pts = map (channel_point (deg2rad (azimuth_deg b)))
             (filter (\<lambda>(c, el, off). distance_value c \<noteq> 0) (zip (channel b) (zip el ao)))"
    "rf = map reflectance_value (filter (\<lambda>c. distance_value c \<noteq> 0) (channel b))"
  using assms by (simp_all add: block_body_eq split: if_splits)

lemma filter_zip3_fst:
  "length cs = length el \<Longrightarrow> length el = length ao \<Longrightarrow>
     map fst (filter (\<lambda>(c, e, a). P c) (zip cs (zip el ao))) = filter P cs"
  by (induction cs el ao rule: list_induct3) simp_all

subsection \<open>The spherical transform\<close>

lemma sphere_norm:
  "(d * sin e * cos a)\<^sup>2 + (d * sin e * sin a)\<^sup>2 + (d * cos e)\<^sup>2 = d\<^sup>2" for d e a :: real
proof -
  have "(d * sin e * cos a)\<^sup>2 + (d * sin e * sin a)\<^sup>2
      = (d * sin e)\<^sup>2 * ((cos a)\<^sup>2 + (sin a)\<^sup>2)"
    by (simp only: power_mult_distrib distrib_left)
  also have "\<dots> = d\<^sup>2 * (sin e)\<^sup>2"
    by (simp add: power_mult_distrib)
  finally have "(d * sin e * cos a)\<^sup>2 + (d * sin e * sin a)\<^sup>2 + (d * cos e)\<^sup>2
      = d\<^sup>2 * ((sin e)\<^sup>2 + (cos e)\<^sup>2)"
    by (simp only: power_mult_distrib distrib_left)
  then show ?thesis by simp
qed

lemma channel_point_norm:
  "channel_point r (c, el, off) = (x, y, z) \<Longrightarrow>
     x\<^sup>2 + y\<^sup>2 + z\<^sup>2 = (real_of_int (distance_value c) / 1000)\<^sup>2"
  unfolding channel_point_def prod.case using sphere_norm by blast

section \<open>The claims\<close>

text \<open>
  C4. The block selection of \<open>raw_hesai_to_cartesian\<close>: with return mode 57 (dual) the
  selected blocks are exactly those at the odd indices 1, 3, 5, ... in order, and with
  any other return mode they are all blocks in order. A packet of 6 blocks gives 3
  selected blocks in dual mode and 6 otherwise.
\<close>

theorem resolver_selection:
  "selected_blocks pkt =
     (if return_mode (tail pkt) = 57
      then map (\<lambda>i. blocks pkt ! i) (filter odd [0..<length (blocks pkt)])
      else blocks pkt)
   \<and> (length (blocks pkt) = 6 \<longrightarrow>
        length (selected_blocks pkt) = (if return_mode (tail pkt) = 57 then 3 else 6))"
proof -
  have sel: "selected_blocks pkt =
     (if return_mode (tail pkt) = 57
      then map (\<lambda>i. blocks pkt ! i) (filter odd [0..<length (blocks pkt)])
      else blocks pkt)"
    by (simp add: selected_blocks_def block_iter_def py_slice_all [unfolded One_nat_def]
          py_slice_odd [unfolded One_nat_def])
  have "length (selected_blocks pkt) = (if return_mode (tail pkt) = 57 then 3 else 6)"
    if "length (blocks pkt) = 6"
    using that unfolding sel by (simp add: odd_upt)
  with sel show ?thesis by blast
qed

theorem resolver_selection_witness:
  "selected_blocks
       \<lparr>blocks = map (\<lambda>a. \<lparr>azimuth_deg = a, channel = []\<rparr>) [0, 1, 2, 3, 4, 5],
        tail = \<lparr>return_mode = 57\<rparr>\<rparr>
     = map (\<lambda>a. \<lparr>azimuth_deg = a, channel = []\<rparr>) [1, 3, 5]
   \<and> selected_blocks
       \<lparr>blocks = map (\<lambda>a. \<lparr>azimuth_deg = a, channel = []\<rparr>) [0, 1, 2, 3, 4, 5],
        tail = \<lparr>return_mode = 56\<rparr>\<rparr>
     = map (\<lambda>a. \<lparr>azimuth_deg = a, channel = []\<rparr>) [0, 1, 2, 3, 4, 5]"
  using
    resolver_selection
      [of "\<lparr>blocks = map (\<lambda>a. \<lparr>azimuth_deg = a, channel = []\<rparr>) [0, 1, 2, 3, 4, 5],
            tail = \<lparr>return_mode = 57\<rparr>\<rparr>"]
    resolver_selection
      [of "\<lparr>blocks = map (\<lambda>a. \<lparr>azimuth_deg = a, channel = []\<rparr>) [0, 1, 2, 3, 4, 5],
            tail = \<lparr>return_mode = 56\<rparr>\<rparr>"]
  by (simp add: upt_rec)

subsection \<open>The sample inputs\<close>

lemma load_sample:
  "load_calibration dec_value (ps @ [sample_calibration]) = Inr (Arr2 [[1, 0, 0], [2, 10, 0]], [])"
  by (simp add: load_calibration_def sample_calibration_def ascii_def genfromtxt_def
      data_rows_def py_lines_def split_line_def py_strip_def squeeze_def dec_value_def)

lemma assign_sample:
  "assign_calibration dec_value fresh_reader (ps @ [sample_calibration])
     = Inr \<lparr>calibration_array = Some (Arr2 [[1, 0, 0], [2, 10, 0]]), warnings_log = []\<rparr>"
  by (simp add: assign_calibration_def load_sample fresh_reader_def)

lemma raw_sample:
  "raw_hesai_to_cartesian sample_from_bytes
       \<lparr>calibration_array = Some (Arr2 [[1, 0, 0], [2, 10, 0]]), warnings_log = w\<rparr>
       (mode # az # rest)
     = Inr (Some ([(cos (deg2rad (real (unat az))), sin (deg2rad (real (unat az))), 0)], [200]))"
  if "uint mode \<noteq> 57" for mode az :: "8 word"
  using that
  by (simp add: raw_hesai_to_cartesian_def sample_from_bytes_def column_def selected_blocks_def
      block_iter_def py_slice_all [unfolded One_nat_def] block_body_eq channel_point_def deg2rad_def)

text \<open>
  C2. A scan message of one data packet and the calibration packet, where the
  calibration table has the two rows (elevation 0, offset 0) and (elevation 10,
  offset 0) and the data packet decodes, in a return mode other than dual, to one
  block of azimuth 0 with channel distances 1000 mm and 0 mm: the cloud written has
  exactly one point, \<open>(1, 0, 0)\<close>, with the colour of channel 0's reflectance, and
  nothing for channel 1.
\<close>

theorem end_to_end_single_block:
  assumes "from_bytes (data p) =
             Inr \<lparr>blocks = [\<lparr>azimuth_deg = 0,
                               channel = [\<lparr>distance_value = 1000, reflectance_value = r0\<rparr>,
                                          \<lparr>distance_value = 0, reflectance_value = r1\<rparr>]\<rparr>],
                  tail = \<lparr>return_mode = m\<rparr>\<rparr>"
    and "m \<noteq> 57"
    and "load_calibration conv [p, c] = Inr (Arr2 [[i0, 0, 0], [i1, 10, 0]], w)"
  shows "export_message from_bytes conv self [p, c] =
           Inr (self\<lparr>calibration_array := Some (Arr2 [[i0, 0, 0], [i1, 10, 0]]),
                     warnings_log := warnings_log self @ w\<rparr>,
                \<lparr>points = [(1, 0, 0)],
                 colors = [(real_of_int r0 / 255, real_of_int r0 / 255, real_of_int r0 / 255)],
                 file_stamp = (stamp_secs p, stamp_nsecs p)\<rparr>)"
  using assms
  by (simp add: export_message_def assign_calibration_def raw_hesai_to_cartesian_def column_def
      selected_blocks_def block_iter_def py_slice_all [unfolded One_nat_def] block_body_eq
      channel_point_def deg2rad_def)

theorem end_to_end_single_block_witness:
  "export_message sample_from_bytes dec_value fresh_reader
       [sample_packet [56, 0], sample_calibration]
     = Inr (\<lparr>calibration_array = Some (Arr2 [[1, 0, 0], [2, 10, 0]]), warnings_log = []\<rparr>,
            \<lparr>points = [(1, 0, 0)], colors = [(200 / 255, 200 / 255, 200 / 255)],
             file_stamp = (5, 6)\<rparr>)"
proof -
  have d: "sample_from_bytes (data (sample_packet [56, 0])) =
             Inr \<lparr>blocks = [\<lparr>azimuth_deg = 0,
                               channel = [\<lparr>distance_value = 1000, reflectance_value = 200\<rparr>,
                                          \<lparr>distance_value = 0, reflectance_value = 100\<rparr>]\<rparr>],
                  tail = \<lparr>return_mode = 56\<rparr>\<rparr>"
    by (simp add: sample_from_bytes_def sample_packet_def)
  have m: "(56 :: int) \<noteq> 57" by simp
  have l: "load_calibration dec_value [sample_packet [56, 0], sample_calibration]
             = Inr (Arr2 [[1, 0, 0], [2, 10, 0]], [])"
    using load_sample [of "[sample_packet [56, 0]]"] by simp
  show ?thesis
    using end_to_end_single_block
      [where from_bytes = sample_from_bytes and p = "sample_packet [56, 0]" and ?r0.0 = 200
         and ?r1.0 = 100 and m = 56 and conv = dec_value and c = sample_calibration
         and ?i0.0 = 1 and ?i1.0 = 2 and w = "[]" and self = fresh_reader, OF d m l]
    by (simp add: fresh_reader_def sample_packet_def)
qed

text \<open>
  C3. A channel with distance 0 gives no point. Whenever the loop body returns, it
  returns one point and one reflectance per channel of non-zero distance, and none of
  the points is the origin. Moreover the loop body returns the same result as for the
  block without that channel and the calibration columns without its entries,
  provided that another channel remains or that the calibration columns have no
  further entries (a block without channels is accepted with calibration columns of
  any length).
\<close>

theorem zero_distance_dropped:
  "(distance_value c = 0 \<and> length cs1 = length e1 \<and> length cs1 = length a1
      \<and> (cs1 @ cs2 \<noteq> [] \<or> (e2 = [] \<and> a2 = [])) \<longrightarrow>
      block_body (e1 @ e # e2) (a1 @ a # a2) \<lparr>azimuth_deg = az, channel = cs1 @ c # cs2\<rparr>
        = block_body (e1 @ e2) (a1 @ a2) \<lparr>azimuth_deg = az, channel = cs1 @ cs2\<rparr>)
   \<and> (block_body el ao b = Inr (pts, rf) \<longrightarrow>
        length pts = length (filter (\<lambda>c. distance_value c \<noteq> 0) (channel b))
        \<and> rf = map reflectance_value (filter (\<lambda>c. distance_value c \<noteq> 0) (channel b))
        \<and> (0, 0, 0) \<notin> set pts)"
proof (intro conjI impI)
  assume h: "distance_value c = 0 \<and> length cs1 = length e1 \<and> length cs1 = length a1
      \<and> (cs1 @ cs2 \<noteq> [] \<or> (e2 = [] \<and> a2 = []))"
  show "block_body (e1 @ e # e2) (a1 @ a # a2) \<lparr>azimuth_deg = az, channel = cs1 @ c # cs2\<rparr>
        = block_body (e1 @ e2) (a1 @ a2) \<lparr>azimuth_deg = az, channel = cs1 @ cs2\<rparr>"
  proof (cases "cs1 @ cs2 = []")
    case True
    with h have "cs1 = []" "cs2 = []" "e1 = []" "a1 = []" "e2 = []" "a2 = []" by simp_all
    with h show ?thesis by (simp add: block_body_eq)
  next
    case False
    with h show ?thesis by (auto simp add: block_body_eq)
  qed
next
  assume r: "block_body el ao b = Inr (pts, rf)"
  note f = block_body_Inr [OF r]
  show "length pts = length (filter (\<lambda>c. distance_value c \<noteq> 0) (channel b))"
  proof (cases "channel b = []")
    case True
    then show ?thesis unfolding f(2) by simp
  next
    case False
    with f(1) have l: "length (channel b) = length el" "length el = length ao"
      by simp_all
    show ?thesis
      unfolding f(2) using filter_zip3_fst [OF l, of "\<lambda>c. distance_value c \<noteq> 0"]
      by (metis length_map)
  qed
  show "rf = map reflectance_value (filter (\<lambda>c. distance_value c \<noteq> 0) (channel b))"
    by (rule f(3))
  show "(0, 0, 0) \<notin> set pts"
  proof
    assume "(0, 0, 0) \<in> set pts"
    then obtain c e a where "distance_value c \<noteq> 0"
      and "channel_point (deg2rad (azimuth_deg b)) (c, e, a) = (0, 0, 0)"
      unfolding f(2) by auto
    then show False using channel_point_norm [of _ c e a 0 0 0] by simp
  qed
qed

theorem zero_distance_dropped_witness:
  "block_body [pi / 2, 7] [0, 0]
       \<lparr>azimuth_deg = 0, channel = [\<lparr>distance_value = 1000, reflectance_value = 200\<rparr>,
                                      \<lparr>distance_value = 0, reflectance_value = 100\<rparr>]\<rparr>
     = Inr ([(1, 0, 0)], [200])
   \<and> block_body [pi / 2] [0]
       \<lparr>azimuth_deg = 0, channel = [\<lparr>distance_value = 1000, reflectance_value = 200\<rparr>]\<rparr>
     = Inr ([(1, 0, 0)], [200])
   \<and> (0 :: real, 0 :: real, 0 :: real) \<notin> set [(1, 0, 0)]"
proof -
  have b: "block_body [pi / 2] [0]
       \<lparr>azimuth_deg = 0, channel = [\<lparr>distance_value = 1000, reflectance_value = 200\<rparr>]\<rparr>
     = Inr ([(1, 0, 0)], [200])"
    by (simp add: block_body_eq channel_point_def deg2rad_def)
  from b zero_distance_dropped
    [where c = "\<lparr>distance_value = 0, reflectance_value = 100\<rparr>"
       and ?cs1.0 = "[\<lparr>distance_value = 1000, reflectance_value = 200\<rparr>]" and ?cs2.0 = "[]"
       and ?e1.0 = "[pi / 2]" and e = 7 and ?e2.0 = "[]"
       and ?a1.0 = "[0]" and a = 0 and ?a2.0 = "[]" and az = 0
       and el = "[pi / 2]" and ao = "[0]" and pts = "[(1, 0, 0)]" and rf = "[200]"
       and b = "\<lparr>azimuth_deg = 0,
                  channel = [\<lparr>distance_value = 1000, reflectance_value = 200\<rparr>]\<rparr>"]
  show ?thesis by simp
qed

text \<open>
  C1. A dual-return packet of 4 blocks with azimuths 10, 10, 20, 20 degrees, each block
  with one channel at 1000 mm, under the two-channel sample calibration:
  \<open>raw_hesai_to_cartesian\<close> returns the single point of the block at index 1
  (azimuth 10 degrees) and nothing for the block at index 3, and the cloud of the
  message holds that one point only.
\<close>

theorem dual_return_first_block_only:
  "raw_hesai_to_cartesian sample_from_bytes
       \<lparr>calibration_array = Some (Arr2 [[1, 0, 0], [2, 10, 0]]), warnings_log = []\<rparr>
       [57, 10, 10, 20, 20]
     = Inr (Some ([(cos (pi / 18), sin (pi / 18), 0)], [200]))
   \<and> map_sum id (\<lambda>(s, f). points f)
        (export_message sample_from_bytes dec_value fresh_reader
           [sample_packet [57, 10, 10, 20, 20], sample_calibration])
     = Inr [(cos (pi / 18), sin (pi / 18), 0)]"
proof -
  have r: "raw_hesai_to_cartesian sample_from_bytes
       \<lparr>calibration_array = Some (Arr2 [[1, 0, 0], [2, 10, 0]]), warnings_log = []\<rparr>
       [57, 10, 10, 20, 20]
     = Inr (Some ([(cos (pi / 18), sin (pi / 18), 0)], [200]))"
    by (simp add: raw_hesai_to_cartesian_def sample_from_bytes_def column_def selected_blocks_def
      block_iter_def py_slice_def block_body_eq channel_point_def deg2rad_def)
  have a: "assign_calibration dec_value fresh_reader
             [sample_packet [57, 10, 10, 20, 20], sample_calibration]
     = Inr \<lparr>calibration_array = Some (Arr2 [[1, 0, 0], [2, 10, 0]]), warnings_log = []\<rparr>"
    using assign_sample [of "[sample_packet [57, 10, 10, 20, 20]]"] by simp
  show ?thesis
    by (simp add: export_message_def a [unfolded sample_packet_def] r sample_packet_def)
qed

lemma dual_short_empty:
  "return_mode (tail pkt) = 57 \<Longrightarrow> length (blocks pkt) < 2 \<Longrightarrow> selected_blocks pkt = []"
  by (simp add: selected_blocks_def block_iter_def py_slice_def Let_def min_def)

text \<open>
  C10. For a packet that decodes and whose selected blocks are none,
  \<open>raw_hesai_to_cartesian\<close> never returns a pair; when the two calibration columns can
  be read it returns \<open>None\<close>, and the loop of \<open>export_pointclouds\<close> then raises
  \<open>TypeError\<close> on unpacking it instead of appending empty arrays. A dual-return packet
  of fewer than two blocks is such a packet.
\<close>

theorem empty_selection_returns_none:
  assumes "from_bytes packet_data = Inr pkt" and "selected_blocks pkt = []"
  shows "(\<forall>r. raw_hesai_to_cartesian from_bytes self packet_data \<noteq> Inr (Some r))
       \<and> (calibration_array self = Some cal \<and> column cal 1 = Inr ev \<and> column cal 2 = Inr ov \<longrightarrow>
            raw_hesai_to_cartesian from_bytes self packet_data = Inr None
            \<and> packet_loop from_bytes self
                 (\<lparr>stamp_secs = secs, stamp_nsecs = nsecs, data = packet_data\<rparr> # pkts) acc
               = Inl TypeError)
       \<and> (return_mode (tail dual) = 57 \<and> length (blocks dual) < 2 \<longrightarrow> selected_blocks dual = [])"
  using assms
  by (cases acc)
     (auto simp add: raw_hesai_to_cartesian_def dual_short_empty split: option.splits sum.splits)

theorem empty_selection_returns_none_witness:
  "sample_from_bytes [57, 30]
     = Inr \<lparr>blocks = [\<lparr>azimuth_deg = 30,
                        channel = [\<lparr>distance_value = 1000, reflectance_value = 200\<rparr>,
                                   \<lparr>distance_value = 0, reflectance_value = 100\<rparr>]\<rparr>],
            tail = \<lparr>return_mode = 57\<rparr>\<rparr>
   \<and> raw_hesai_to_cartesian sample_from_bytes
       \<lparr>calibration_array = Some (Arr2 [[1, 0, 0], [2, 10, 0]]), warnings_log = []\<rparr> [57, 30]
     = Inr None
   \<and> packet_loop sample_from_bytes
       \<lparr>calibration_array = Some (Arr2 [[1, 0, 0], [2, 10, 0]]), warnings_log = []\<rparr>
       [\<lparr>stamp_secs = 5, stamp_nsecs = 6, data = [57, 30]\<rparr>] ([], [])
     = Inl TypeError"
proof -
  let ?pkt = "\<lparr>blocks = [\<lparr>azimuth_deg = 30,
                   channel = [\<lparr>distance_value = 1000, reflectance_value = 200\<rparr>,
                              \<lparr>distance_value = 0, reflectance_value = 100\<rparr>]\<rparr>],
               tail = \<lparr>return_mode = 57\<rparr>\<rparr>"
  have d: "sample_from_bytes [57, 30] = Inr ?pkt"
    by (simp add: sample_from_bytes_def)
  have s: "selected_blocks ?pkt = []"
    by (simp add: dual_short_empty)
  from d empty_selection_returns_none
    [where from_bytes = sample_from_bytes and packet_data = "[57, 30]" and pkt = ?pkt
       and self = "\<lparr>calibration_array = Some (Arr2 [[1, 0, 0], [2, 10, 0]]), warnings_log = []\<rparr>"
       and cal = "Arr2 [[1, 0, 0], [2, 10, 0]]" and ev = "[0, 10]" and ov = "[0, 0]"
       and secs = 5 and nsecs = 6 and pkts = "[]" and acc = "([], [])", OF d s]
  show ?thesis by (simp add: column_def)
qed

subsection \<open>The packet loop\<close>

lemma packet_loop_prefix:
  assumes "\<forall>q \<in> set pre. \<exists>r. raw_hesai_to_cartesian from_bytes self (data q) = Inr (Some r)"
  shows "\<exists>acc'. packet_loop from_bytes self (pre @ rest) acc = packet_loop from_bytes self rest acc'"
  using assms
proof (induction pre arbitrary: acc)
  case Nil
  show ?case by (intro exI [of _ acc]) simp
next
  case (Cons q pre)
  obtain pa ra where acc: "acc = (pa, ra)" by (cases acc)
  from Cons.prems obtain tp tr
    where r: "raw_hesai_to_cartesian from_bytes self (data q) = Inr (Some (tp, tr))"
    by fastforce
  from Cons.prems have "\<forall>q \<in> set pre. \<exists>r. raw_hesai_to_cartesian from_bytes self (data q) = Inr (Some r)"
    by simp
  from Cons.IH [OF this, of "(pa @ tp, ra @ tr)"] show ?case
    by (simp add: acc r)
qed

lemma packet_loop_raise:
  "raw_hesai_to_cartesian from_bytes self (data p) = Inl e \<Longrightarrow>
     packet_loop from_bytes self (p # post) acc = Inl e"
  by (cases acc) simp

lemma raw_decode_error:
  "from_bytes packet_data = Inl e \<Longrightarrow> raw_hesai_to_cartesian from_bytes self packet_data = Inl e"
  by (simp add: raw_hesai_to_cartesian_def)

text \<open>
  C5 (as the code has it). No exception is caught in \<open>export_pointclouds\<close>: when the
  calibration of a message has been assigned, the packets before \<open>p\<close> have been
  reconstructed and the decoder raises \<open>e\<close> on packet \<open>p\<close>, the processing of the message
  ends with \<open>e\<close>, whatever packets follow, and so does the loop over the messages, with
  no file written for this message or a later one.
\<close>

theorem malformed_packet_aborts_message:
  assumes "assign_calibration conv self (pre @ p # post @ [c]) = Inr self'"
    and "\<forall>q \<in> set pre. \<exists>r. raw_hesai_to_cartesian from_bytes self' (data q) = Inr (Some r)"
    and "from_bytes (data p) = Inl e"
  shows "export_message from_bytes conv self (pre @ p # post @ [c]) = Inl e
       \<and> export_pointclouds from_bytes conv self ((pre @ p # post @ [c]) # msgs) written
           = (written, Inl e)"
proof -
  have b: "butlast (pre @ p # post @ [c]) = pre @ p # post"
    by (simp add: butlast_append)
  obtain acc' where "packet_loop from_bytes self' (pre @ p # post) ([], [])
      = packet_loop from_bytes self' (p # post) acc'"
    using packet_loop_prefix [OF assms(2)] by blast
  then have "packet_loop from_bytes self' (pre @ p # post) ([], []) = Inl e"
    using packet_loop_raise
      [OF raw_decode_error [where from_bytes = from_bytes and packet_data = "data p", OF assms(3)]]
    by simp
  then have "export_message from_bytes conv self (pre @ p # post @ [c]) = Inl e"
    unfolding export_message_def b assms(1) by simp
  then show ?thesis by simp
qed

theorem malformed_packet_aborts_message_witness:
  "export_message sample_from_bytes dec_value fresh_reader
       [sample_packet [56, 0], sample_packet [], sample_packet [56, 90], sample_calibration]
     = Inl EOFError
   \<and> export_pointclouds sample_from_bytes dec_value fresh_reader
       [[sample_packet [56, 0], sample_packet [], sample_packet [56, 90], sample_calibration],
        [sample_packet [56, 0], sample_calibration]] []
     = ([], Inl EOFError)"
proof -
  let ?s = "\<lparr>calibration_array = Some (Arr2 [[1, 0, 0], [2, 10, 0]]), warnings_log = []\<rparr>"
  have a: "assign_calibration dec_value fresh_reader
             ([sample_packet [56, 0]] @ sample_packet [] # [sample_packet [56, 90]]
                @ [sample_calibration]) = Inr ?s"
    using assign_sample [of "[sample_packet [56, 0], sample_packet [], sample_packet [56, 90]]"]
    by simp
  have g: "\<forall>q \<in> set [sample_packet [56, 0]].
             \<exists>r. raw_hesai_to_cartesian sample_from_bytes ?s (data q) = Inr (Some r)"
    using raw_sample [of 56 "[]" 0 "[]"] by (simp add: sample_packet_def)
  have d: "sample_from_bytes (data (sample_packet [])) = Inl EOFError"
    by (simp add: sample_from_bytes_def sample_packet_def)
  from malformed_packet_aborts_message [OF a g d,
      of "[[sample_packet [56, 0], sample_calibration]]" "[]"]
  show ?thesis by simp
qed

text \<open>
  C5 as stated fails: in a message whose first packet is truncated and whose second
  packet is valid, the truncated packet is not skipped; the message ends with the
  decoder's exception and no cloud.
\<close>

theorem malformed_packet_not_skipped:
  "export_message sample_from_bytes dec_value fresh_reader
       [sample_packet [], sample_packet [56, 0], sample_calibration]
     = Inl EOFError"
proof -
  have a: "assign_calibration dec_value fresh_reader
             [sample_packet [], sample_packet [56, 0], sample_calibration]
     = Inr \<lparr>calibration_array = Some (Arr2 [[1, 0, 0], [2, 10, 0]]), warnings_log = []\<rparr>"
    using assign_sample [of "[sample_packet [], sample_packet [56, 0]]"] by simp
  have d: "raw_hesai_to_cartesian sample_from_bytes s (data (sample_packet [])) = Inl EOFError"
    for s
    by (simp add: raw_hesai_to_cartesian_def sample_from_bytes_def sample_packet_def)
  show ?thesis
    unfolding export_message_def a by (simp add: d)
qed

subsection \<open>The reader after a message\<close>

lemma export_reader:
  "export_message from_bytes conv self packets = Inr (self', file) \<Longrightarrow>
     assign_calibration conv self packets = Inr self'"
  by (auto simp add: export_message_def split: sum.splits)

lemma assign_log:
  "assign_calibration conv self packets = Inr self' \<Longrightarrow>
     \<exists>cal w. load_calibration conv packets = Inr (cal, w)
       \<and> calibration_array self' = Some cal \<and> warnings_log self' = warnings_log self @ w"
  by (auto simp add: assign_calibration_def split: sum.splits)

text \<open>
  C7 (as the code has it). A packet whose return mode is not 57 is treated alike
  whatever the mode is: the iteration starts at 0 with step 1, all blocks are
  selected, and \<open>raw_hesai_to_cartesian\<close> returns what it returns for the same packet
  with any other mode that is not 57; the mode alone never makes it raise. No warning
  is issued for the mode: after a message, the warnings log holds what it held before
  and the warnings of the calibration parser, nothing else.
\<close>

theorem unknown_mode_as_single:
  assumes "return_mode (tail pkt) \<noteq> 57" and "m \<noteq> 57"
  shows "block_iter pkt = (0, 1)
       \<and> selected_blocks pkt = blocks pkt
       \<and> raw_hesai_to_cartesian (\<lambda>packet_data. Inr pkt) self bs
           = raw_hesai_to_cartesian (\<lambda>packet_data. Inr (pkt\<lparr>tail := \<lparr>return_mode = m\<rparr>\<rparr>)) self bs
       \<and> (export_message from_bytes conv self packets = Inr (self', file) \<longrightarrow>
            (\<exists>cal w. load_calibration conv packets = Inr (cal, w)
               \<and> warnings_log self' = warnings_log self @ w))"
proof -
  have i: "block_iter pkt = (0, 1)"
    using assms(1) by (simp add: block_iter_def)
  have s: "selected_blocks pkt = blocks pkt"
    using assms(1) by (simp add: selected_blocks_def block_iter_def py_slice_all [unfolded One_nat_def])
  have s': "selected_blocks (pkt\<lparr>tail := \<lparr>return_mode = m\<rparr>\<rparr>) = blocks pkt"
    using assms(2) by (simp add: selected_blocks_def block_iter_def py_slice_all [unfolded One_nat_def])
  have r: "raw_hesai_to_cartesian (\<lambda>packet_data. Inr pkt) self bs
           = raw_hesai_to_cartesian (\<lambda>packet_data. Inr (pkt\<lparr>tail := \<lparr>return_mode = m\<rparr>\<rparr>)) self bs"
    unfolding raw_hesai_to_cartesian_def sum.case s s' by (rule refl)
  have w: "\<exists>cal w. load_calibration conv packets = Inr (cal, w)
               \<and> warnings_log self' = warnings_log self @ w"
    if "export_message from_bytes conv self packets = Inr (self', file)"
    using assign_log [OF export_reader [OF that]] by blast
  from i s r w show ?thesis by blast
qed

theorem unknown_mode_as_single_witness:
  "selected_blocks \<lparr>blocks = [\<lparr>azimuth_deg = 0, channel = []\<rparr>, \<lparr>azimuth_deg = 1, channel = []\<rparr>],
                    tail = \<lparr>return_mode = 0\<rparr>\<rparr>
     = [\<lparr>azimuth_deg = 0, channel = []\<rparr>, \<lparr>azimuth_deg = 1, channel = []\<rparr>]
   \<and> raw_hesai_to_cartesian
        (\<lambda>packet_data. Inr \<lparr>blocks = [\<lparr>azimuth_deg = 0, channel = []\<rparr>,
                                      \<lparr>azimuth_deg = 1, channel = []\<rparr>],
                            tail = \<lparr>return_mode = 0\<rparr>\<rparr>) fresh_reader []
     = raw_hesai_to_cartesian
        (\<lambda>packet_data. Inr \<lparr>blocks = [\<lparr>azimuth_deg = 0, channel = []\<rparr>,
                                      \<lparr>azimuth_deg = 1, channel = []\<rparr>],
                            tail = \<lparr>return_mode = 56\<rparr>\<rparr>) fresh_reader []"
proof -
  have a: "return_mode (tail \<lparr>blocks = [\<lparr>azimuth_deg = 0, channel = []\<rparr>,
                                       \<lparr>azimuth_deg = 1, channel = []\<rparr>],
                             tail = \<lparr>return_mode = 0\<rparr>\<rparr>) \<noteq> 57"
    by simp
  have b: "(56 :: int) \<noteq> 57" by simp
  from unknown_mode_as_single [OF a b, where self = fresh_reader and bs = "[]"]
  show ?thesis by simp
qed

text \<open>
  C7 as stated fails: a message with a packet of return mode 0, which is neither a
  single-return nor the dual-return marker, is processed with an empty warnings log.
\<close>

theorem unknown_mode_no_warning:
  "export_message sample_from_bytes dec_value fresh_reader
       [sample_packet [0, 0], sample_calibration]
     = Inr (\<lparr>calibration_array = Some (Arr2 [[1, 0, 0], [2, 10, 0]]), warnings_log = []\<rparr>,
            \<lparr>points = [(1, 0, 0)], colors = [(200 / 255, 200 / 255, 200 / 255)],
             file_stamp = (5, 6)\<rparr>)"
proof -
  have a: "assign_calibration dec_value fresh_reader [sample_packet [0, 0], sample_calibration]
     = Inr \<lparr>calibration_array = Some (Arr2 [[1, 0, 0], [2, 10, 0]]), warnings_log = []\<rparr>"
    using assign_sample [of "[sample_packet [0, 0]]"] by simp
  have r: "raw_hesai_to_cartesian sample_from_bytes
       \<lparr>calibration_array = Some (Arr2 [[1, 0, 0], [2, 10, 0]]), warnings_log = []\<rparr>
       (data (sample_packet [0, 0])) = Inr (Some ([(1, 0, 0)], [200]))"
    using raw_sample [of 0 "[]" 0 "[]"] by (simp add: sample_packet_def deg2rad_def)
  show ?thesis
    unfolding export_message_def a by (simp add: r) (simp add: sample_packet_def)
qed

subsection \<open>The calibration parser\<close>

lemma genfromtxt_error:
  "genfromtxt conv text = Inl e \<longleftrightarrow> e = ValueError \<and> ragged (data_rows text)"
  by (auto simp add: genfromtxt_def ragged_def Let_def list_ex_iff filter_empty_conv
        split: list.splits)

text \<open>
  C8 (as the code has it). For a message with at least one packet, parsing the
  calibration raises \<open>UnicodeDecodeError\<close> exactly when the payload after its first 8
  bytes is not well-formed UTF-8, raises \<open>ValueError\<close> exactly when the payload decodes
  and some data row has another number of values than the first data row, and raises
  nothing else. The number of fields of a row is compared with that of the first
  row, not with 3.
\<close>

theorem calibration_loader_failure:
  assumes "packets \<noteq> []"
  shows "(load_calibration conv packets = Inl UnicodeDecodeError
           \<longleftrightarrow> utf8_decode (drop 8 (data (last packets))) = None)
       \<and> (load_calibration conv packets = Inl ValueError
           \<longleftrightarrow> (\<exists>text. utf8_decode (drop 8 (data (last packets))) = Some text
                        \<and> ragged (data_rows text)))
       \<and> (\<forall>e. load_calibration conv packets = Inl e \<longrightarrow> e = UnicodeDecodeError \<or> e = ValueError)"
  using assms
  by (auto simp add: load_calibration_def genfromtxt_error split: option.splits)

theorem calibration_loader_failure_witness:
  "load_calibration dec_value [sample_packet (replicate 8 0 @ [0xFF])] = Inl UnicodeDecodeError
   \<and> load_calibration dec_value
        [sample_packet (replicate 8 0 @ ascii ''a,b,c'' @ [10] @ ascii ''1,2,3'' @ [10]
                          @ ascii ''4,5,6,7'')]
       = Inl ValueError"
proof -
  have n: "[sample_packet bs] \<noteq> []" for bs by simp
  have u: "utf8_decode (drop 8 (data (last [sample_packet (replicate 8 0 @ [0xFF])]))) = None"
    by (simp add: sample_packet_def)
  have v: "\<exists>text. utf8_decode (drop 8 (data (last
              [sample_packet (replicate 8 0 @ ascii ''a,b,c'' @ [10] @ ascii ''1,2,3'' @ [10]
                          @ ascii ''4,5,6,7'')]))) = Some text
            \<and> ragged (data_rows text)"
    by (simp add: sample_packet_def ascii_def data_rows_def py_lines_def split_line_def
          py_strip_def ragged_def)
  from calibration_loader_failure [OF n, of dec_value "replicate 8 0 @ [0xFF]"] u
    calibration_loader_failure [OF n, of dec_value
       "replicate 8 0 @ ascii ''a,b,c'' @ [10] @ ascii ''1,2,3'' @ [10] @ ascii ''4,5,6,7''"] v
  show ?thesis by blast
qed

text \<open>
  C8 as stated fails: a payload whose data rows have two fields each is parsed
  without an exception into a table of two columns, and a message that consists of
  this calibration packet alone is exported, as an empty cloud.
\<close>

theorem two_field_rows_load:
  "map_option data_rows (utf8_decode (drop 8 (data short_calibration)))
     = Some [[[48], [48]], [[49, 48], [48]]]
   \<and> load_calibration dec_value [short_calibration] = Inr (Arr2 [[0, 0], [10, 0]], [])
   \<and> export_message sample_from_bytes dec_value fresh_reader [short_calibration]
     = Inr (\<lparr>calibration_array = Some (Arr2 [[0, 0], [10, 0]]), warnings_log = []\<rparr>,
            \<lparr>points = [], colors = [], file_stamp = (7, 9)\<rparr>)"
proof -
  have d: "map_option data_rows (utf8_decode (drop 8 (data short_calibration)))
     = Some [[[48], [48]], [[49, 48], [48]]]"
    by (simp add: short_calibration_def ascii_def data_rows_def py_lines_def split_line_def
          py_strip_def)
  have l: "load_calibration dec_value [short_calibration] = Inr (Arr2 [[0, 0], [10, 0]], [])"
    by (simp add: load_calibration_def short_calibration_def ascii_def genfromtxt_def
      data_rows_def py_lines_def split_line_def py_strip_def squeeze_def dec_value_def)
  have e: "export_message sample_from_bytes dec_value fresh_reader [short_calibration]
     = Inr (\<lparr>calibration_array = Some (Arr2 [[0, 0], [10, 0]]), warnings_log = []\<rparr>,
            \<lparr>points = [], colors = [], file_stamp = (7, 9)\<rparr>)"
    unfolding export_message_def assign_calibration_def l
    by (simp add: fresh_reader_def) (simp add: short_calibration_def)
  from d l e show ?thesis by blast
qed

subsection \<open>Equality of parsed tables\<close>








end
